theory Spec2Isabelle
  imports Complex_Main "HOL-Library.Sublist"
begin

section \<open>Python strings\<close>

text \<open>
  A Python \<open>str\<close> is modelled as a \<open>string\<close>: the list of its code points, each below
  256. The functions of this section are the \<open>str\<close> methods that \<open>entry.py\<close> calls,
  with the behaviour CPython has on such strings.
\<close>

text \<open>
  The exceptions of the model. \<open>JSONDecodeError\<close> is a subclass of \<open>ValueError\<close>, so
  \<open>except ValueError\<close> catches both; \<open>TypeError\<close> is caught by no handler of the source.
\<close>

datatype py_error = ValueError | JSONDecodeError | TypeError

definition is_ValueError :: "py_error \<Rightarrow> bool" where
  "is_ValueError e = (e = ValueError \<or> e = JSONDecodeError)"

definition newline :: char where
  "newline = CHR 0x0A"

text \<open>\<open>c.isspace()\<close> for a code point below 256.\<close>

definition isspace :: "char \<Rightarrow> bool" where
  "isspace c =
     (let n = (of_char c :: nat)
      in (9 \<le> n \<and> n \<le> 13) \<or> (28 \<le> n \<and> n \<le> 32) \<or> n = 133 \<or> n = 160)"

text \<open>\<open>s.strip()\<close>: leading and trailing whitespace removed.\<close>

definition strip :: "string \<Rightarrow> string" where
  "strip s = rev (dropWhile isspace (rev (dropWhile isspace s)))"

text \<open>\<open>s.startswith(p)\<close>.\<close>

definition startswith :: "string \<Rightarrow> string \<Rightarrow> bool" where
  "startswith s p = (take (length p) s = p)"

text \<open>
  \<open>s.find(sub)\<close>: the lowest index at which \<open>sub\<close> occurs in \<open>s\<close>; \<open>None\<close> stands
  for Python's \<open>-1\<close>.
\<close>

fun find_str :: "string \<Rightarrow> string \<Rightarrow> nat option" where
  "find_str [] sub = (if sub = [] then Some 0 else None)"
| "find_str (c # cs) sub =
     (if startswith (c # cs) sub then Some 0 else map_option Suc (find_str cs sub))"

text \<open>\<open>s.find(sub, start)\<close> for a start index \<open>start \<ge> 0\<close>.\<close>

definition find_from :: "string \<Rightarrow> string \<Rightarrow> nat \<Rightarrow> nat option" where
  "find_from s sub start =
     (if length s < start then None
      else map_option (\<lambda>i. i + start) (find_str (drop start s) sub))"

text \<open>\<open>sub in s\<close>.\<close>

definition contains :: "string \<Rightarrow> string \<Rightarrow> bool" where
  "contains s sub = (find_str s sub \<noteq> None)"

text \<open>\<open>s[i:j]\<close> for \<open>0 \<le> i\<close> and \<open>0 \<le> j\<close>.\<close>

definition slice :: "string \<Rightarrow> nat \<Rightarrow> nat \<Rightarrow> string" where
  "slice s i j = take (j - i) (drop i s)"

text \<open>\<open>s.split(sep)\<close> for a separator of one character: never the empty list.\<close>

fun split :: "string \<Rightarrow> char \<Rightarrow> string list" where
  "split [] sep = [[]]"
| "split (c # cs) sep =
     (if c = sep then [] # split cs sep
      else (case split cs sep of
              [] \<Rightarrow> [[c]]
            | w # ws \<Rightarrow> (c # w) # ws))"

text \<open>
  \<open>s.split(sep, 1)\<close> for a separator of one character that occurs in \<open>s\<close>: the text
  before its first occurrence and the text after it.
\<close>

definition split1 :: "string \<Rightarrow> char \<Rightarrow> string \<times> string" where
  "split1 s sep = (takeWhile (\<lambda>c. c \<noteq> sep) s, drop 1 (dropWhile (\<lambda>c. c \<noteq> sep) s))"

text \<open>\<open>sep.join(xs)\<close>.\<close>

fun join :: "string \<Rightarrow> string list \<Rightarrow> string" where
  "join sep [] = []"
| "join sep [x] = x"
| "join sep (x # y # ys) = x @ sep @ join sep (y # ys)"

text \<open>
  \<open>s.lower()\<close>: below 256 the upper-case code points are \<open>A\<close> to \<open>Z\<close> and 192 to 222
  without 215, and each has its lower-case form 32 places higher.
\<close>

definition lower_char :: "char \<Rightarrow> char" where
  "lower_char c =
     (let n = (of_char c :: nat)
      in if (65 \<le> n \<and> n \<le> 90) \<or> (192 \<le> n \<and> n \<le> 222 \<and> n \<noteq> 215)
         then char_of (n + 32) else c)"

definition lower :: "string \<Rightarrow> string" where
  "lower s = map lower_char s"

text \<open>
  \<open>int(s)\<close>: surrounding whitespace is dropped, one sign is allowed, then come decimal
  digits, with single underscores allowed between two digits. Anything else raises
  \<open>ValueError\<close>, and so does a numeral of more than \<open>MAX_STR_DIGITS\<close> digits: the
  interpreter's limit on the conversion of decimal text, 4300 unless it is configured
  otherwise, counted over all the digits and not over the underscores or the sign.
\<close>

definition MAX_STR_DIGITS :: nat where
  "MAX_STR_DIGITS = 4300"

definition is_decimal :: "char \<Rightarrow> bool" where
  "is_decimal c = (let n = (of_char c :: nat) in 48 \<le> n \<and> n \<le> 57)"

definition digit_val :: "char \<Rightarrow> int" where
  "digit_val c = int (of_char c) - 48"

text \<open>Digits with single underscores between them; the flag says that a digit came last.\<close>

fun digits_ok :: "bool \<Rightarrow> string \<Rightarrow> bool" where
  "digits_ok prev [] = prev"
| "digits_ok prev (c # cs) =
     (if is_decimal c then digits_ok True cs
      else if c = CHR ''_'' \<and> prev then digits_ok False cs
      else False)"

definition decimal :: "string \<Rightarrow> int" where
  "decimal s = foldl (\<lambda>acc c. 10 * acc + digit_val c) 0 (filter is_decimal s)"

definition py_int :: "string \<Rightarrow> py_error + int" where
  "py_int s =
     (let t = strip s;
          neg = (t \<noteq> [] \<and> hd t = CHR ''-'');
          body = (if t \<noteq> [] \<and> (hd t = CHR ''-'' \<or> hd t = CHR ''+'') then tl t else t)
      in if \<not> digits_ok False body then Inl ValueError
         else if MAX_STR_DIGITS < length (filter is_decimal body) then Inl ValueError
         else Inr (if neg then - decimal body else decimal body))"

section \<open>Project metadata\<close>

text \<open>
  The dict that \<open>parse_index_md\<close> builds and that \<open>fetch_owasp_projects\<close> appends to
  the catalog. The type of a value is fixed by its key: \<open>tags\<close> holds a list of strings,
  \<open>level\<close> an integer, and every other key a string. The record keeps the three kinds
  apart: \<open>strs\<close> is the dict restricted to the keys other than \<open>tags\<close> and \<open>level\<close>.
\<close>

record project =
  strs :: "string \<rightharpoonup> string"
  tags :: "string list option"
  level :: "int option"

definition empty_dict :: project where
  "empty_dict = \<lparr>strs = Map.empty, tags = None, level = None\<rparr>"

text \<open>
  The key and the value of a line, as the loop body computes them; \<open>None\<close> for a line
  without a colon, which the loop skips.
\<close>

definition key_value :: "string \<Rightarrow> (string \<times> string) option" where
  "key_value line0 =
     (let line = strip line0
      in if CHR '':'' \<in> set line then
           (let (key, value) = split1 line (CHR '':'') in Some (strip key, strip value))
         else None)"

text \<open>The body of the loop over the lines of the front matter.\<close>

definition parse_line :: "project \<Rightarrow> string \<Rightarrow> py_error + project" where
  "parse_line metadata line =
     (case key_value line of
        None \<Rightarrow> Inr metadata
      | Some (key, value) \<Rightarrow>
          if key = ''tags'' then
            (if value \<noteq> [] then Inr (metadata\<lparr>tags := Some (map strip (split value (CHR '','')))\<rparr>)
             else Inr (metadata\<lparr>tags := Some []\<rparr>))
          else if key = ''level'' then
            (case py_int value of
               Inr n \<Rightarrow> Inr (metadata\<lparr>level := Some n\<rparr>)
             | Inl e \<Rightarrow> if is_ValueError e then Inr (metadata\<lparr>level := Some 0\<rparr>) else Inl e)
          else Inr (metadata\<lparr>strs := (strs metadata)(key \<mapsto> value)\<rparr>))"

fun parse_lines :: "project \<Rightarrow> string list \<Rightarrow> py_error + project" where
  "parse_lines metadata [] = Inr metadata"
| "parse_lines metadata (line # lines) =
     (case parse_line metadata line of
        Inl e \<Rightarrow> Inl e
      | Inr metadata' \<Rightarrow> parse_lines metadata' lines)"

text \<open>The front matter: the text between the two delimiters, stripped, when both are there.\<close>

definition frontmatter :: "string \<Rightarrow> string option" where
  "frontmatter content =
     (if \<not> startswith content ''---'' then None
      else (case find_from content ''---'' 3 of
              None \<Rightarrow> None
            | Some end_index \<Rightarrow> Some (strip (slice content 3 end_index))))"

text \<open>
  \<open>parse_index_md\<close>: \<open>Inr None\<close> is the return value \<open>None\<close>, \<open>Inl e\<close> an exception
  that leaves the function.
\<close>

definition parse_index_md :: "string \<Rightarrow> py_error + project option" where
  "parse_index_md content =
     (case frontmatter content of
        None \<Rightarrow> Inr None
      | Some fm \<Rightarrow>
          (case parse_lines empty_dict (split fm newline) of
             Inl e \<Rightarrow> Inl e
           | Inr metadata \<Rightarrow>
               (case strs metadata ''title'' of
                  None \<Rightarrow> Inr None
                | Some t \<Rightarrow> if t \<noteq> [] then Inr (Some metadata) else Inr None)))"

section \<open>Project matcher\<close>

definition category_mappings :: "(string \<times> string list) list" where
  "category_mappings =
     [(''code_analysis'', [''sast'', ''code'', ''analysis'', ''dependency'', ''scanner'']),
      (''web_testing'', [''web'', ''dast'', ''testing'', ''proxy'', ''scanner'', ''zap'']),
      (''auth'', [''authentication'', ''authorization'', ''identity'', ''sso'', ''oauth'']),
      (''monitoring'', [''monitor'', ''logging'', ''detection'', ''siem'']),
      (''standards'', [''standard'', ''checklist'', ''asvs'', ''masvs'', ''samm'']),
      (''secure_dev'', [''development'', ''secure coding'', ''security guide'']),
      (''testing_guide'', [''testing guide'', ''pentest'', ''wstg'']),
      (''cheatsheet'', [''cheat'', ''reference'', ''quick'']),
      (''labs'', [''lab'', ''ctf'', ''challenge'', ''vulnerable'', ''juice shop'', ''webgoat'']),
      (''presentations'', [''presentation'', ''slide'', ''talk'']),
      (''courses'', [''course'', ''curriculum'', ''training'']),
      (''vuln_web'', [''vulnerable'', ''insecure'', ''web application'', ''juice shop'', ''webgoat'']),
      (''vuln_mobile'', [''mobile'', ''android'', ''ios'', ''mstg'']),
      (''vuln_api'', [''api'', ''rest'', ''graphql''])]"

text \<open>\<open>project.get(key, '')\<close> for a key other than \<open>tags\<close> and \<open>level\<close>.\<close>

definition get_str :: "project \<Rightarrow> string \<Rightarrow> string" where
  "get_str project key = (case strs project key of None \<Rightarrow> [] | Some s \<Rightarrow> s)"

text \<open>\<open>project.get('tags', [])\<close>.\<close>

definition get_tags :: "project \<Rightarrow> string list" where
  "get_tags project = (case tags project of None \<Rightarrow> [] | Some ts \<Rightarrow> ts)"

text \<open>The text that the keywords are looked up in: four parts, one space between them.\<close>

definition searchable :: "project \<Rightarrow> string" where
  "searchable project =
     lower (get_str project ''title'' @ '' '' @ get_str project ''pitch'' @ '' '' @
            join '' '' (get_tags project) @ '' '' @ get_str project ''type'')"

text \<open>
  The inner loop \<open>for kw in keywords: if kw in searchable: matching.append(project); break\<close>
  appends the project once, when some keyword occurs: the result says whether it did.
\<close>

fun keyword_loop :: "string list \<Rightarrow> string \<Rightarrow> bool" where
  "keyword_loop [] text = False"
| "keyword_loop (kw # keywords) text = (if contains text kw then True else keyword_loop keywords text)"

text \<open>The body of the outer loop: whether the project is appended to \<open>matching\<close>.\<close>

definition project_matches :: "string \<Rightarrow> string list \<Rightarrow> project \<Rightarrow> bool" where
  "project_matches category keywords project =
     (let text = searchable project;
          project_type = lower (get_str project ''type'')
      in if category \<in> set [''code_analysis'', ''web_testing'', ''auth'', ''monitoring''] then
           (if project_type = ''tool'' then keyword_loop keywords text else False)
         else if category \<in> set [''standards'', ''secure_dev'', ''testing_guide'', ''cheatsheet''] then
           (if project_type \<in> set [''documentation'', ''standard'']
            then keyword_loop keywords text else False)
         else if category \<in> set [''labs'', ''presentations'', ''courses''] then
           keyword_loop keywords text
         else if category \<in> set [''vuln_web'', ''vuln_mobile'', ''vuln_api''] then
           (if project_type \<in> set [''tool'', ''code''] then keyword_loop keywords text else False)
         else False)"

text \<open>The outer loop, with the list \<open>matching\<close> as its accumulator.\<close>

fun filter_loop :: "string \<Rightarrow> string list \<Rightarrow> project list \<Rightarrow> project list \<Rightarrow> project list" where
  "filter_loop category keywords [] matching = matching"
| "filter_loop category keywords (project # projects) matching =
     filter_loop category keywords projects
       (if project_matches category keywords project then matching @ [project] else matching)"

definition filter_projects :: "project list \<Rightarrow> string \<Rightarrow> project list" where
  "filter_projects projects category =
     (let keywords = (case map_of category_mappings category of None \<Rightarrow> [] | Some kws \<Rightarrow> kws)
      in if keywords = [] then projects
         else filter_loop category keywords projects [])"

section \<open>Flowchart\<close>

text \<open>
  An option of a question: the button's label, the value it selects and the key of the
  next question (\<open>end\<close> after the last one). The labels are given without the emoji
  that they start with in the source.
\<close>

record flow_option =
  opt_text :: string
  opt_value :: string
  opt_next :: string

record question_data =
  question :: string
  options :: "flow_option list"

definition opt :: "string \<Rightarrow> string \<Rightarrow> string \<Rightarrow> flow_option" where
  "opt t v n = \<lparr>opt_text = t, opt_value = v, opt_next = n\<rparr>"

definition FLOWCHART_QUESTIONS :: "(string \<times> question_data) list" where
  "FLOWCHART_QUESTIONS =
     [(''start'',
       \<lparr>question = ''What type of OWASP resource are you looking for?'',
        options =
          [opt ''Security Tool'' ''tool'' ''tool_type'',
           opt ''Documentation/Guide'' ''documentation'' ''doc_type'',
           opt ''Training/Education'' ''training'' ''training_type'',
           opt ''Vulnerable Application (for testing)'' ''vulnerable_app'' ''vuln_app_type'']\<rparr>),
      (''tool_type'',
       \<lparr>question = ''What kind of security tool are you looking for?'',
        options =
          [opt ''Code Analysis/SAST'' ''code_analysis'' ''end'',
           opt ''Web Application Testing'' ''web_testing'' ''end'',
           opt ''Authentication/Authorization'' ''auth'' ''end'',
           opt ''Security Monitoring'' ''monitoring'' ''end'',
           opt ''Go Back'' ''back'' ''start'']\<rparr>),
      (''doc_type'',
       \<lparr>question = ''What documentation are you interested in?'',
        options =
          [opt ''Security Standards/Checklists'' ''standards'' ''end'',
           opt ''Secure Development Guide'' ''secure_dev'' ''end'',
           opt ''Security Testing Guide'' ''testing_guide'' ''end'',
           opt ''Quick Reference'' ''cheatsheet'' ''end'',
           opt ''Go Back'' ''back'' ''start'']\<rparr>),
      (''training_type'',
       \<lparr>question = ''What kind of training are you looking for?'',
        options =
          [opt ''Hands-on Labs/CTF'' ''labs'' ''end'',
           opt ''Presentations/Slides'' ''presentations'' ''end'',
           opt ''Courses/Curriculum'' ''courses'' ''end'',
           opt ''Go Back'' ''back'' ''start'']\<rparr>),
      (''vuln_app_type'',
       \<lparr>question = ''What type of vulnerable application do you need?'',
        options =
          [opt ''Web Application'' ''vuln_web'' ''end'',
           opt ''Mobile Application'' ''vuln_mobile'' ''end'',
           opt ''API Security'' ''vuln_api'' ''end'',
           opt ''Go Back'' ''back'' ''start'']\<rparr>)]"

text \<open>
  The keys that following the options from \<open>start\<close> leads to: a step goes from the key
  of a question to the \<open>next\<close> of one of its options, unless that is \<open>end\<close>.
\<close>

inductive reachable :: "string \<Rightarrow> bool" where
  start: "reachable ''start''"
| step: "reachable key \<Longrightarrow> map_of FLOWCHART_QUESTIONS key = Some q \<Longrightarrow> option \<in> set (options q) \<Longrightarrow>
         opt_next option \<noteq> ''end'' \<Longrightarrow> reachable (opt_next option)"

section \<open>The worker and its collaborators\<close>

text \<open>
  The \<open>value\<close> of a pressed button, by what \<open>json.loads\<close> makes of it: text that is not
  JSON (the bot's own \<open>start\<close> and \<open>learn\<close>), or the object with the string fields
  \<open>current\<close>, \<open>selected\<close> and \<open>next\<close> that \<open>send_flowchart_question\<close> serialises.
\<close>

datatype button_value = NotJson string | Payload string string string

record payload =
  current :: string
  selected :: string
  next_step :: string

definition json_loads :: "button_value \<Rightarrow> py_error + payload" where
  "json_loads v =
     (case v of
        NotJson s \<Rightarrow> Inl JSONDecodeError
      | Payload c s n \<Rightarrow> Inr \<lparr>current = c, selected = s, next_step = n\<rparr>)"

record button =
  btn_text :: string
  action_id :: string
  btn_value :: button_value

text \<open>
  The messages that the bot sends, by their content; the layout of the Slack blocks is
  left out. A question carries its text and its buttons; search results carry the number
  of matching projects and the projects shown.
\<close>

datatype message =
    Question string "button list"
  | LearnMore
  | NoProjectsFound
  | ProjectsFound nat "project list"

text \<open>The conversation state of a user, stored under \<open>conversation:<user_id>\<close>.\<close>

record conversation =
  selections :: "string \<rightharpoonup> string"
  last_updated :: real

text \<open>The cached catalog, stored under \<open>projects:cache\<close>.\<close>

record catalog =
  timestamp :: real
  projects :: "project list"

text \<open>The search statistics, stored under \<open>stats:searches\<close>.\<close>

record stats =
  total :: int
  categories :: "string \<rightharpoonup> int"
  last_search :: real

text \<open>
  What the worker does to its collaborators, in the order in which it does it: a write
  to the key-value store (key and \<open>expirationTtl\<close>), a run of the catalog fetcher, a
  call of \<open>send_dm\<close> (user, message, fallback text).
\<close>

datatype event =
    KvPut string "nat option"
  | FetchProjects
  | SendDm string message string

text \<open>
  The world around a handler. The key-value store \<open>SLACK_BOT_KV\<close> holds JSON text under
  three kinds of keys, which cannot collide; the model keeps the decoded values, one
  field for each kind of key. \<open>remote_catalog\<close> is what a scan of the GitHub
  organisations collects. \<open>clock\<close> gives the successive results of \<open>time.time()\<close>,
  taken as real numbers, and \<open>clock_reads\<close> counts the calls made so far.
\<close>

record world =
  conversations :: "string \<rightharpoonup> conversation"
  projects_cache :: "catalog option"
  search_stats :: "stats option"
  remote_catalog :: "project list"
  clock :: "nat \<Rightarrow> real"
  clock_reads :: nat
  trace :: "event list"

definition CACHE_TTL_SECONDS :: nat where
  "CACHE_TTL_SECONDS = 24 * 60 * 60"

definition time_time :: "world \<Rightarrow> real \<times> world" where
  "time_time w = (clock w (clock_reads w), w\<lparr>clock_reads := clock_reads w + 1\<rparr>)"

definition log_event :: "event \<Rightarrow> world \<Rightarrow> world" where
  "log_event e w = w\<lparr>trace := trace w @ [e]\<rparr>"

definition send_dm :: "world \<Rightarrow> string \<Rightarrow> message \<Rightarrow> string \<Rightarrow> world" where
  "send_dm w user_id blocks fallback_text = log_event (SendDm user_id blocks fallback_text) w"

definition fetch_owasp_projects :: "world \<Rightarrow> project list \<times> world" where
  "fetch_owasp_projects w = (remote_catalog w, log_event FetchProjects w)"

text \<open>The list \<open>buttons\<close> that \<open>send_flowchart_question\<close> builds.\<close>

definition question_buttons :: "string \<Rightarrow> question_data \<Rightarrow> button list" where
  "question_buttons question_key qd =
     map (\<lambda>option.
            \<lparr>btn_text = opt_text option,
             action_id = ''flowchart_'' @ question_key @ ''_'' @ opt_value option,
             btn_value = Payload question_key (opt_value option) (opt_next option)\<rparr>)
         (options qd)"

definition send_flowchart_question :: "world \<Rightarrow> string \<Rightarrow> string \<Rightarrow> py_error + world" where
  "send_flowchart_question w user_id question_key =
     (case map_of FLOWCHART_QUESTIONS question_key of
        None \<Rightarrow> Inr w
      | Some qd \<Rightarrow>
          Inr (send_dm w user_id (Question (question qd) (question_buttons question_key qd))
                 (question qd)))"

definition start_conversation :: "world \<Rightarrow> string \<Rightarrow> py_error + world" where
  "start_conversation w user_id = send_flowchart_question w user_id ''start''"

definition send_learn_more :: "world \<Rightarrow> string \<Rightarrow> world" where
  "send_learn_more w user_id = send_dm w user_id LearnMore ''About OWASP''"

definition store_user_selection :: "world \<Rightarrow> string \<Rightarrow> string \<Rightarrow> string \<Rightarrow> world" where
  "store_user_selection w user_id question_key answer =
     (let key = ''conversation:'' @ user_id;
          existing = conversations w user_id;
          old = (case existing of None \<Rightarrow> Map.empty | Some state \<Rightarrow> selections state);
          (now, w1) = time_time w;
          state = \<lparr>selections = old(question_key \<mapsto> answer), last_updated = now\<rparr>
      in log_event (KvPut key (Some 3600))
           (w1\<lparr>conversations := (conversations w1)(user_id \<mapsto> state)\<rparr>))"

definition get_cached_projects :: "world \<Rightarrow> project list \<times> world" where
  "get_cached_projects w =
     (let fresh = (\<lambda>w.
            let (found, w1) = fetch_owasp_projects w;
                (now, w2) = time_time w1
            in (found,
                log_event (KvPut ''projects:cache'' (Some CACHE_TTL_SECONDS))
                  (w2\<lparr>projects_cache := Some \<lparr>timestamp = now, projects = found\<rparr>\<rparr>)))
      in case projects_cache w of
           None \<Rightarrow> fresh w
         | Some data \<Rightarrow>
             (let (now, w1) = time_time w
              in if now - timestamp data < real CACHE_TTL_SECONDS then (projects data, w1)
                 else fresh w1))"

definition record_search :: "world \<Rightarrow> string \<Rightarrow> string \<Rightarrow> nat \<Rightarrow> world" where
  "record_search w user_id category results_count =
     (let (old_total, old_categories) =
            (case search_stats w of
               None \<Rightarrow> (0, Map.empty)
             | Some st \<Rightarrow> (total st, categories st));
          count = (case old_categories category of None \<Rightarrow> 0 | Some n \<Rightarrow> n);
          (now, w1) = time_time w;
          st = \<lparr>total = old_total + 1, categories = old_categories(category \<mapsto> count + 1),
                last_search = now\<rparr>
      in log_event (KvPut ''stats:searches'' None) (w1\<lparr>search_stats := Some st\<rparr>))"

definition show_matching_projects :: "world \<Rightarrow> string \<Rightarrow> string \<Rightarrow> world" where
  "show_matching_projects w user_id category =
     (let (found, w1) = get_cached_projects w;
          matching = filter_projects found category;
          blocks = (if matching = [] then NoProjectsFound
                    else ProjectsFound (length matching) (take 5 matching));
          w2 = send_dm w1 user_id blocks ''Project search results''
      in record_search w2 user_id category (length matching))"

text \<open>
  \<open>handle_flowchart_action\<close>. Of the calls inside its \<open>try\<close> only \<open>json.loads\<close>
  raises, so the handler for \<open>JSONDecodeError\<close> runs in the world the function was
  called in.
\<close>

definition handle_flowchart_action :: "world \<Rightarrow> string \<Rightarrow> string \<Rightarrow> button_value \<Rightarrow> py_error + world" where
  "handle_flowchart_action w user_id act value =
     (if act = ''start_flowchart'' then start_conversation w user_id
      else if act = ''learn_more'' then Inr (send_learn_more w user_id)
      else if act = ''start_over'' then start_conversation w user_id
      else if startswith act ''flowchart_'' then
        (case json_loads value of
           Inl e \<Rightarrow> if e = JSONDecodeError then start_conversation w user_id else Inl e
         | Inr data \<Rightarrow>
             (let w1 = store_user_selection w user_id (current data) (selected data)
              in if next_step data = ''end''
                 then Inr (show_matching_projects w1 user_id (selected data))
                 else send_flowchart_question w1 user_id (next_step data)))
      else Inr w)"

section \<open>Sample data\<close>

text \<open>The two projects of the test \<open>test_filter_tool_projects\<close>.\<close>

definition tool_project :: project where
  "tool_project =
     \<lparr>strs = [''title'' \<mapsto> ''Test Tool'', ''type'' \<mapsto> ''tool'', ''pitch'' \<mapsto> ''A code analysis tool''],
      tags = Some [], level = None\<rparr>"

definition doc_project :: project where
  "doc_project =
     \<lparr>strs = [''title'' \<mapsto> ''Test Doc'', ''type'' \<mapsto> ''documentation'', ''pitch'' \<mapsto> ''A guide''],
      tags = Some [], level = None\<rparr>"

text \<open>
  More projects for the category \<open>code_analysis\<close>. Three that match: one with upper
  case in its type and with the keyword in its title, one without tags, one with the
  keyword in its second tag only. Two that do not: a tool without any keyword, and a
  guide that has a keyword but is no tool.
\<close>

definition make_project :: "string \<Rightarrow> string \<Rightarrow> string \<Rightarrow> string list option \<Rightarrow> project" where
  "make_project t ty p ts =
     \<lparr>strs = [''title'' \<mapsto> t, ''type'' \<mapsto> ty, ''pitch'' \<mapsto> p], tags = ts, level = None\<rparr>"

definition upper_project :: project where
  "upper_project = make_project ''SAST Suite'' ''Tool'' ''Finds bugs'' (Some [''CI''])"

definition untagged_project :: project where
  "untagged_project = make_project ''Lint'' ''tool'' ''Static Analysis for scripts'' None"

definition tagged_project :: project where
  "tagged_project =
     make_project ''Watcher'' ''tool'' ''Keeps libraries fresh'' (Some [''supply chain'', ''Dependency''])"

definition plain_project :: project where
  "plain_project = make_project ''Proxy'' ''tool'' ''Intercepts traffic'' (Some [''web''])"

definition guide_project :: project where
  "guide_project = make_project ''Review Guide'' ''documentation'' ''Secure code review'' (Some [])"

text \<open>
  Tools in which a keyword shows only when the parts are put together with nothing
  between them: \<open>sa\<close> and \<open>st\<close> as title and pitch, as pitch and tag, as two tags, and
  the tag \<open>sas\<close> before the type \<open>tool\<close>.
\<close>

definition sa_st_project :: project where
  "sa_st_project = make_project ''sa'' ''tool'' ''st'' (Some [])"

definition pitch_tag_project :: project where
  "pitch_tag_project = make_project ''x'' ''tool'' ''sa'' (Some [''st''])"

definition two_tags_project :: project where
  "two_tags_project = make_project ''x'' ''tool'' ''y'' (Some [''sa'', ''st''])"

definition tag_type_project :: project where
  "tag_type_project = make_project ''x'' ''tool'' ''y'' (Some [''sas''])"

text \<open>
  The searchable text as the claim about \<open>code_analysis\<close> words it, read to the letter:
  title, pitch, tags and type one after the other, in lower case. With it, the projects
  that the claim expects in the result.
\<close>

definition concatenation :: "project \<Rightarrow> string" where
  "concatenation project =
     lower (get_str project ''title'' @ get_str project ''pitch'' @ concat (get_tags project) @
            get_str project ''type'')"

definition claimed_code_analysis :: "project \<Rightarrow> bool" where
  "claimed_code_analysis project =
     (lower (get_str project ''type'') = ''tool'' \<and>
      (contains (concatenation project) ''sast'' \<or> contains (concatenation project) ''code'' \<or>
       contains (concatenation project) ''analysis'' \<or>
       contains (concatenation project) ''dependency'' \<or>
       contains (concatenation project) ''scanner''))"

text \<open>
  A description document whose metadata block is never closed: after the opening
  delimiter no line is a delimiter. Its title has three dashes in it.
\<close>

definition unclosed_index_md :: string where
  "unclosed_index_md = ''---'' @ [newline] @ ''title: a---b'' @ [newline] @ ''level: 2'' @ [newline]"

text \<open>
  The delimiter of the metadata block as the specification words it, a line of its own:
  a line is a delimiter when it reads \<open>---\<close>, whitespace around it apart, and a block
  has a closing delimiter when a line after the first is one.
\<close>

definition delimiter_line :: "string \<Rightarrow> bool" where
  "delimiter_line line = (strip line = ''---'')"

definition has_closing_line :: "string \<Rightarrow> bool" where
  "has_closing_line content = list_ex delimiter_line (tl (split content newline))"

text \<open>
  A description document with a well-formed metadata block: the title \<open>t\<close>, level 3
  and the tags \<open>a\<close> and \<open>b\<close>, then the closing delimiter and the rest of the document.
\<close>

definition index_md :: "string \<Rightarrow> string \<Rightarrow> string" where
  "index_md t rest =
     ''---'' @ [newline] @ ''title: '' @ t @ [newline] @ ''level: 3'' @ [newline] @
     ''tags: a, b'' @ [newline] @ ''---'' @ rest"

text \<open>
  A world with an empty store and nothing sent, in which a scan of GitHub finds the
  documentation project and the clock reads 100000, 100001, ...
\<close>

definition world0 :: world where
  "world0 =
     \<lparr>conversations = Map.empty, projects_cache = None, search_stats = None,
      remote_catalog = [doc_project], clock = (\<lambda>n. 100000 + real n), clock_reads = 0,
      trace = []\<rparr>"

text \<open>The same world with a catalog cached 1000 seconds ago, and with one cached 99000 seconds ago.\<close>

definition fresh_catalog :: catalog where
  "fresh_catalog = \<lparr>timestamp = 99000, projects = [tool_project]\<rparr>"

definition stale_catalog :: catalog where
  "stale_catalog = \<lparr>timestamp = 1000, projects = [tool_project]\<rparr>"

definition fresh_world :: world where
  "fresh_world = world0\<lparr>projects_cache := Some fresh_catalog\<rparr>"

definition stale_world :: world where
  "stale_world = world0\<lparr>projects_cache := Some stale_catalog\<rparr>"

section \<open>Properties of the project matcher\<close>

lemma filter_loop_filter:
  "filter_loop category keywords ps matching =
     matching @ filter (project_matches category keywords) ps"
  by (induction ps arbitrary: matching) simp_all

lemma keyword_loop_iff: "keyword_loop kws t = (\<exists>kw \<in> set kws. contains t kw)"
  by (induction kws) auto

text \<open>
  Claim C1. For every list of projects and every category that is not a key of
  \<open>category_mappings\<close>, \<open>filter_projects\<close> returns the list it was given, unchanged.
\<close>

theorem filter_projects_unknown_category:
  "category \<notin> set (map fst category_mappings) \<Longrightarrow> filter_projects ps category = ps"
proof -
  assume "category \<notin> set (map fst category_mappings)"
  then have "map_of category_mappings category = None"
    by (simp add: map_of_eq_None_iff)
  then show ?thesis by (simp add: filter_projects_def)
qed

theorem filter_projects_unknown_category_witness:
  "''totally_unknown_tag'' \<notin> set (map fst category_mappings) \<and>
   filter_projects [tool_project, doc_project] ''totally_unknown_tag'' = [tool_project, doc_project]"
  using filter_projects_unknown_category [of "''totally_unknown_tag''" "[tool_project, doc_project]"]
  by (simp add: category_mappings_def)

lemma code_analysis_keywords:
  "map_of category_mappings ''code_analysis'' =
     Some [''sast'', ''code'', ''analysis'', ''dependency'', ''scanner'']"
  by (simp add: category_mappings_def)

lemma code_analysis_matches:
  "project_matches ''code_analysis'' [''sast'', ''code'', ''analysis'', ''dependency'', ''scanner''] p =
     (lower (get_str p ''type'') = ''tool'' \<and>
      (\<exists>kw \<in> set [''sast'', ''code'', ''analysis'', ''dependency'', ''scanner''].
         contains
           (lower (get_str p ''title'' @ '' '' @ get_str p ''pitch'' @ '' '' @
                   join '' '' (get_tags p) @ '' '' @ get_str p ''type'')) kw))"
  by (simp add: project_matches_def searchable_def Let_def)

text \<open>
  Claim C2, as the code has it. For every list of projects, \<open>filter_projects\<close> with
  the category \<open>code_analysis\<close> returns exactly the projects whose type, in lower case,
  is \<open>tool\<close> and whose searchable text contains one of \<open>sast\<close>, \<open>code\<close>,
  \<open>analysis\<close>, \<open>dependency\<close>, \<open>scanner\<close>, where the searchable text is, in lower
  case, the title, a space, the pitch, a space, the tags with a space between any two of
  them, a space, and the type (a missing field counts as empty). The projects come in
  the order of the input, of which the result is a subsequence.
\<close>

theorem filter_projects_code_analysis:
  "filter_projects ps ''code_analysis'' =
     filter (\<lambda>p. lower (get_str p ''type'') = ''tool'' \<and>
       (\<exists>kw \<in> set [''sast'', ''code'', ''analysis'', ''dependency'', ''scanner''].
          contains
            (lower (get_str p ''title'' @ '' '' @ get_str p ''pitch'' @ '' '' @
                    join '' '' (get_tags p) @ '' '' @ get_str p ''type'')) kw)) ps
   \<and> subseq (filter_projects ps ''code_analysis'') ps"
proof -
  have "filter_projects ps ''code_analysis'' =
      filter (project_matches ''code_analysis''
        [''sast'', ''code'', ''analysis'', ''dependency'', ''scanner'']) ps"
    by (simp add: filter_projects_def code_analysis_keywords filter_loop_filter)
  also have "\<dots> =
     filter (\<lambda>p. lower (get_str p ''type'') = ''tool'' \<and>
       (\<exists>kw \<in> set [''sast'', ''code'', ''analysis'', ''dependency'', ''scanner''].
          contains
            (lower (get_str p ''title'' @ '' '' @ get_str p ''pitch'' @ '' '' @
                    join '' '' (get_tags p) @ '' '' @ get_str p ''type'')) kw)) ps"
    by (rule filter_cong [OF refl]) (rule code_analysis_matches)
  finally have e: "filter_projects ps ''code_analysis'' =
     filter (\<lambda>p. lower (get_str p ''type'') = ''tool'' \<and>
       (\<exists>kw \<in> set [''sast'', ''code'', ''analysis'', ''dependency'', ''scanner''].
          contains
            (lower (get_str p ''title'' @ '' '' @ get_str p ''pitch'' @ '' '' @
                    join '' '' (get_tags p) @ '' '' @ get_str p ''type'')) kw)) ps" .
  show ?thesis
    by (rule conjI, rule e, simp only: e, rule subseq_filter_left)
qed

theorem filter_projects_code_analysis_witness:
  "filter_projects
     [tool_project, plain_project, upper_project, guide_project, sa_st_project, untagged_project,
      pitch_tag_project, two_tags_project, tagged_project, tag_type_project, doc_project]
     ''code_analysis'' =
   [tool_project, upper_project, untagged_project, tagged_project]"
proof -
  define P where "P = (\<lambda>p. lower (get_str p ''type'') = ''tool'' \<and>
       (\<exists>kw \<in> set [''sast'', ''code'', ''analysis'', ''dependency'', ''scanner''].
          contains
            (lower (get_str p ''title'' @ '' '' @ get_str p ''pitch'' @ '' '' @
                    join '' '' (get_tags p) @ '' '' @ get_str p ''type'')) kw))"
  have e: "filter_projects
     [tool_project, plain_project, upper_project, guide_project, sa_st_project, untagged_project,
      pitch_tag_project, two_tags_project, tagged_project, tag_type_project, doc_project]
     ''code_analysis'' =
     filter P
     [tool_project, plain_project, upper_project, guide_project, sa_st_project, untagged_project,
      pitch_tag_project, two_tags_project, tagged_project, tag_type_project, doc_project]"
    unfolding P_def using filter_projects_code_analysis by (rule conjunct1)
  have yes: "P tool_project" "P upper_project" "P untagged_project" "P tagged_project"
    unfolding P_def by code_simp+
  have no: "\<not> P plain_project" "\<not> P guide_project" "\<not> P sa_st_project"
    "\<not> P pitch_tag_project" "\<not> P two_tags_project" "\<not> P tag_type_project" "\<not> P doc_project"
    unfolding P_def by code_simp+
  show ?thesis unfolding e by (simp add: yes no)
qed

text \<open>
  The claim as it is worded fails. A tool with the title \<open>sa\<close> and the pitch \<open>st\<close> has
  \<open>sast\<close> in the concatenation of its fields, so the claim expects it in the result; the
  code looks the keywords up in \<open>sa st  tool\<close> and leaves the project out.
\<close>

theorem filter_projects_code_analysis_counterexample:
  "claimed_code_analysis sa_st_project \<and>
   concatenation sa_st_project = ''sasttool'' \<and>
   searchable sa_st_project = ''sa st  tool'' \<and>
   filter_projects [sa_st_project] ''code_analysis'' = []"
proof -
  have a: "claimed_code_analysis sa_st_project" by code_simp
  have b: "concatenation sa_st_project = ''sasttool''" by code_simp
  have c: "searchable sa_st_project = ''sa st  tool''" by code_simp
  have "\<not> project_matches ''code_analysis''
      [''sast'', ''code'', ''analysis'', ''dependency'', ''scanner''] sa_st_project"
    by code_simp
  then have d: "filter_projects [sa_st_project] ''code_analysis'' = []"
    by (simp add: filter_projects_def code_analysis_keywords)
  from a b c d show ?thesis by simp
qed

section \<open>Properties of the metadata parser\<close>

lemma py_int_cases: "py_int v = Inl ValueError \<or> (\<exists>n. py_int v = Inr n)"
  by (simp add: py_int_def MAX_STR_DIGITS_def Let_def)

lemma parse_line_Inr: "\<exists>md'. parse_line md line = Inr md'"
proof (cases "key_value line")
  case None
  then show ?thesis by (simp add: parse_line_def)
next
  case (Some kv)
  obtain key v where kv: "kv = (key, v)" by (cases kv)
  show ?thesis
  proof (cases "key = ''level''")
    case True
    from py_int_cases [of v] show ?thesis
    proof
      assume "py_int v = Inl ValueError"
      then show ?thesis using Some kv True by (simp add: parse_line_def is_ValueError_def)
    next
      assume "\<exists>n. py_int v = Inr n"
      then obtain n where "py_int v = Inr n" ..
      then show ?thesis using Some kv True by (simp add: parse_line_def)
    qed
  next
    case False
    then show ?thesis using Some kv by (simp add: parse_line_def)
  qed
qed

lemma parse_lines_Inr: "\<exists>md'. parse_lines md ls = Inr md'"
proof (induction ls arbitrary: md)
  case Nil
  show ?case by simp
next
  case (Cons l ls)
  obtain md1 where "parse_line md l = Inr md1" using parse_line_Inr by blast
  then show ?case using Cons.IH [of md1] by simp
qed

lemma parse_lines_append:
  "parse_lines md (xs @ ys) =
     (case parse_lines md xs of Inl e \<Rightarrow> Inl e | Inr md' \<Rightarrow> parse_lines md' ys)"
  by (induction xs arbitrary: md) (auto split: sum.splits)

lemma parse_line_level_keep:
  assumes "\<forall>v. key_value l \<noteq> Some (''level'', v)" and "parse_line md l = Inr md'"
  shows "level md' = level md"
proof (cases "key_value l")
  case None
  then show ?thesis using assms(2) by (simp add: parse_line_def)
next
  case (Some kv)
  obtain key v where kv: "kv = (key, v)" by (cases kv)
  with Some assms(1) have "key \<noteq> ''level''" by auto
  then show ?thesis using Some kv assms(2)
    by (cases "key = ''tags''"; cases "v = []") (auto simp add: parse_line_def)
qed

lemma parse_lines_level_keep:
  assumes "\<forall>l \<in> set ls. \<forall>v. key_value l \<noteq> Some (''level'', v)" and "parse_lines md ls = Inr md'"
  shows "level md' = level md"
  using assms
proof (induction ls arbitrary: md)
  case Nil
  then show ?case by simp
next
  case (Cons l ls)
  obtain md1 where l1: "parse_line md l = Inr md1" using parse_line_Inr by blast
  with Cons.prems have "parse_lines md1 ls = Inr md'" by simp
  with Cons have "level md' = level md1" by simp
  moreover have "level md1 = level md" using parse_line_level_keep [OF _ l1] Cons.prems(1) by simp
  ultimately show ?case by simp
qed

lemma parse_line_bad_level:
  assumes "key_value l = Some (''level'', v)" and "py_int v = Inl ValueError"
  shows "parse_line md l = Inr (md\<lparr>level := Some 0\<rparr>)"
  using assms by (simp add: parse_line_def is_ValueError_def)

lemma parse_index_md_no_frontmatter:
  "frontmatter content = None \<Longrightarrow> parse_index_md content = Inr None"
  by (simp add: parse_index_md_def)

lemma parse_index_md_parsed:
  assumes "frontmatter content = Some fm" and "parse_lines empty_dict (split fm newline) = Inr md"
  shows "parse_index_md content =
     Inr (case strs md ''title'' of None \<Rightarrow> None | Some t \<Rightarrow> if t \<noteq> [] then Some md else None)"
  using assms by (simp add: parse_index_md_def split: option.splits)

lemma find_dashes_skip:
  "c \<noteq> CHR ''-'' \<Longrightarrow> find_str (c # s) ''---'' = map_option Suc (find_str s ''---'')"
  by (simp add: startswith_def)

lemma find_dashes_here: "find_str (''---'' @ s) ''---'' = Some 0"
  by (simp add: startswith_def)

lemma find_dashes_append:
  assumes "find_str t ''---'' = None" and "c \<noteq> CHR ''-''"
  shows "find_str (t @ c # s) ''---'' = map_option (\<lambda>i. i + length t) (find_str (c # s) ''---'')"
  using assms(1)
proof (induction t)
  case Nil
  show ?case by (simp add: option.map_ident)
next
  case (Cons a t)
  from Cons.prems have ns: "\<not> startswith (a # t) ''---''" and t: "find_str t ''---'' = None"
    by (auto split: if_splits)
  have "\<not> startswith (a # t @ c # s) ''---''"
  proof (cases t)
    case Nil
    then show ?thesis using assms(2) by (auto simp add: startswith_def)
  next
    case (Cons b t')
    show ?thesis
    proof (cases t')
      case Nil
      then show ?thesis using assms(2) Cons by (auto simp add: startswith_def)
    next
      case (Cons b' t'')
      then show ?thesis using ns \<open>t = b # t'\<close> by (simp add: startswith_def)
    qed
  qed
  then show ?case using Cons.IH [OF t]
    by (simp add: option.map_comp comp_def del: find_str.simps(2)
        add: find_str.simps(2) [of a "t @ c # s"])
qed

lemma strip_clean:
  assumes "strip t = t" and "t \<noteq> []"
  shows "\<not> isspace (hd t)" and "\<not> isspace (last t)"
proof -
  let ?u = "dropWhile isspace t"
  have l1: "length (strip t) \<le> length ?u"
    unfolding strip_def using length_dropWhile_le [of isspace "rev ?u"] by simp
  have l2: "length ?u \<le> length t" by (rule length_dropWhile_le)
  from l1 l2 assms(1) have "length ?u = length t" by simp
  then have u: "?u = t"
    by (metis append_eq_conv_conj length_append add_diff_cancel_right' takeWhile_dropWhile_id
        append_self_conv2 length_0_conv add_cancel_left_left)
  then show "\<not> isspace (hd t)" using assms(2) by (metis hd_dropWhile)
  from assms(1) u have "rev (dropWhile isspace (rev t)) = t" by (simp add: strip_def)
  then have "dropWhile isspace (rev t) = rev t" by (metis rev_rev_ident)
  then have "\<not> isspace (hd (rev t))" using assms(2) by (metis hd_dropWhile rev_is_Nil_conv)
  then show "\<not> isspace (last t)" using assms(2) by (simp add: hd_rev)
qed

lemma dropWhile_clean:
  assumes "strip t = t" and "t \<noteq> []"
  shows "dropWhile isspace (t @ s) = t @ s" and "dropWhile isspace (rev t @ s) = rev t @ s"
proof -
  from strip_clean [OF assms] have h: "\<not> isspace (hd t)" and l: "\<not> isspace (last t)" by simp_all
  from h assms(2) show "dropWhile isspace (t @ s) = t @ s" by (cases t) simp_all
  from l assms(2) have "\<not> isspace (hd (rev t))" by (simp add: hd_rev)
  with assms(2) show "dropWhile isspace (rev t @ s) = rev t @ s" by (cases "rev t") simp_all
qed

lemma split_append: "sep \<notin> set xs \<Longrightarrow> split (xs @ sep # ys) sep = xs # split ys sep"
  by (induction xs) auto

lemma index_md_frontmatter:
  assumes "t \<noteq> []" and "strip t = t" and "find_str t ''---'' = None"
  shows "frontmatter (index_md t rest) =
     Some (''title: '' @ t @ [newline] @ ''level: 3'' @ [newline] @ ''tags: a, b'')"
proof -
  have n: "newline \<noteq> CHR ''-''" by (simp add: newline_def)
  have f: "find_str (t @ newline # ''level: 3'' @ [newline] @ ''tags: a, b'' @ [newline] @ ''---'' @ rest) ''---''
      = Some (length t + 21)"
    using find_dashes_here [of rest] n
    by (simp add: find_dashes_append [OF assms(3)] find_dashes_skip del: find_str.simps)
  have "find_from (index_md t rest) ''---'' 3 = Some (length t + 32)"
    using f n by (simp add: find_from_def index_md_def find_dashes_skip del: find_str.simps)
  moreover have "startswith (index_md t rest) ''---''"
    by (simp add: index_md_def startswith_def)
  moreover have "slice (index_md t rest) 3 (length t + 32) =
      newline # ''title: '' @ t @ [newline] @ ''level: 3'' @ [newline] @ ''tags: a, b'' @ [newline]"
  proof -
    define B where
      "B = newline # ''title: '' @ t @ [newline] @ ''level: 3'' @ [newline] @ ''tags: a, b'' @ [newline]"
    have d: "index_md t rest = ''---'' @ B @ ''---'' @ rest" by (simp add: B_def index_md_def)
    have lb: "length t + 32 - 3 = length B" by (simp add: B_def)
    have "slice (index_md t rest) 3 (length t + 32) = take (length B) (B @ ''---'' @ rest)"
      unfolding slice_def d lb by simp
    then show ?thesis by (simp add: B_def)
  qed
  moreover have "strip (newline # ''title: '' @ t @ [newline] @ ''level: 3'' @ [newline] @ ''tags: a, b'' @ [newline])
      = ''title: '' @ t @ [newline] @ ''level: 3'' @ [newline] @ ''tags: a, b''"
    by (simp add: strip_def isspace_def newline_def)
  ultimately show ?thesis by (simp add: frontmatter_def)
qed

lemma key_value_title:
  assumes "t \<noteq> []" and "strip t = t"
  shows "key_value (''title: '' @ t) = Some (''title'', t)"
proof -
  have s: "strip (''title: '' @ t) = ''title: '' @ t"
    using dropWhile_clean(2) [OF assms(2,1)] by (simp add: strip_def isspace_def)
  have v: "strip (CHR '' '' # t) = t"
    using assms(2) by (simp add: strip_def isspace_def)
  have k: "strip ''title'' = ''title''" by (simp add: strip_def isspace_def)
  show ?thesis using s v k by (simp add: key_value_def split1_def Let_def)
qed

text \<open>
  Claim C4. A document that begins with the opening delimiter, has the lines
  \<open>title: t\<close>, \<open>level: 3\<close> and \<open>tags: a, b\<close> and then the closing delimiter parses to
  the metadata with title \<open>t\<close>, the integer level 3 and the tags \<open>a\<close> and \<open>b\<close>, whatever
  follows the closing delimiter. The title \<open>t\<close> is any text that can stand on such a
  line: not empty, no whitespace at its ends, no line break and no \<open>---\<close> in it.
\<close>

theorem parse_index_md_well_formed:
  assumes "t \<noteq> []" and "strip t = t" and "newline \<notin> set t" and "\<not> contains t ''---''"
  shows "parse_index_md (index_md t rest) =
     Inr (Some \<lparr>strs = [''title'' \<mapsto> t], tags = Some [''a'', ''b''], level = Some 3\<rparr>)"
proof -
  from assms(4) have nf: "find_str t ''---'' = None" by (simp add: contains_def)
  have fm: "frontmatter (index_md t rest) =
     Some (''title: '' @ t @ [newline] @ ''level: 3'' @ [newline] @ ''tags: a, b'')"
    using assms(1,2) nf by (rule index_md_frontmatter)
  have "newline \<notin> set (''title: '' @ t)" using assms(3) by (simp add: newline_def)
  then have ls: "split (''title: '' @ t @ [newline] @ ''level: 3'' @ [newline] @ ''tags: a, b'') newline =
      [''title: '' @ t, ''level: 3'', ''tags: a, b'']"
    using split_append [of newline "''title: '' @ t" "''level: 3'' @ [newline] @ ''tags: a, b''"]
    by (simp add: newline_def)
  have l1: "parse_line empty_dict (''title: '' @ t) =
      Inr \<lparr>strs = [''title'' \<mapsto> t], tags = None, level = None\<rparr>"
    using key_value_title [OF assms(1,2)] by (simp add: parse_line_def empty_dict_def)
  have l2: "parse_line \<lparr>strs = [''title'' \<mapsto> t], tags = None, level = None\<rparr> ''level: 3'' =
      Inr \<lparr>strs = [''title'' \<mapsto> t], tags = None, level = Some 3\<rparr>"
    by (simp add: parse_line_def key_value_def strip_def isspace_def split1_def py_int_def MAX_STR_DIGITS_def
        is_decimal_def decimal_def digit_val_def)
  have l3: "parse_line \<lparr>strs = [''title'' \<mapsto> t], tags = None, level = Some 3\<rparr> ''tags: a, b'' =
      Inr \<lparr>strs = [''title'' \<mapsto> t], tags = Some [''a'', ''b''], level = Some 3\<rparr>"
    by (simp add: parse_line_def key_value_def strip_def isspace_def split1_def)
  have "parse_lines empty_dict [''title: '' @ t, ''level: 3'', ''tags: a, b''] =
      Inr \<lparr>strs = [''title'' \<mapsto> t], tags = Some [''a'', ''b''], level = Some 3\<rparr>"
    using l1 l2 l3 by simp
  with fm ls assms(1) show ?thesis by (simp add: parse_index_md_def)
qed

theorem parse_index_md_well_formed_witness:
  "parse_index_md
     (''---'' @ [newline] @ ''title: X'' @ [newline] @ ''level: 3'' @ [newline] @
      ''tags: a, b'' @ [newline] @ ''---'') =
     Inr (Some \<lparr>strs = [''title'' \<mapsto> ''X''], tags = Some [''a'', ''b''], level = Some 3\<rparr>)"
  using parse_index_md_well_formed [of "''X''" "[]"]
  by (simp add: index_md_def strip_def isspace_def newline_def contains_def startswith_def)

text \<open>
  Claim C5, at a document that the code gets wrong. \<open>unclosed_index_md\<close> starts with
  the opening delimiter and has no closing delimiter line, so it should parse to
  \<open>None\<close>. The code looks for the closing delimiter with \<open>content.find("---", 3)\<close>,
  finds the three dashes inside the title at index 12 and returns a record with the
  title cut to \<open>a\<close> and without the level.
\<close>

theorem parse_index_md_unclosed_block:
  "startswith unclosed_index_md ''---'' \<and>
   has_closing_line unclosed_index_md = False \<and>
   find_from unclosed_index_md ''---'' 3 = Some 12 \<and>
   frontmatter unclosed_index_md = Some ''title: a'' \<and>
   parse_index_md unclosed_index_md =
     Inr (Some \<lparr>strs = [''title'' \<mapsto> ''a''], tags = None, level = None\<rparr>)"
  by (simp add: unclosed_index_md_def has_closing_line_def delimiter_line_def parse_index_md_def
      frontmatter_def find_from_def startswith_def newline_def slice_def strip_def isspace_def
      parse_line_def key_value_def split1_def empty_dict_def)

text \<open>
  Claim C9. \<open>parse_index_md\<close> never raises, whatever the document. When the value of
  a \<open>level\<close> line is text that \<open>int\<close> rejects, the line sets the level to 0: a record
  returned for a document whose last \<open>level\<close> line is such a line has level 0.
\<close>

theorem parse_index_md_bad_level:
  "(\<exists>r. parse_index_md content = Inr r) \<and>
   (frontmatter content = Some fm \<and> split fm newline = before @ [l] @ after \<and>
    key_value l = Some (''level'', v) \<and> py_int v = Inl ValueError \<and>
    (\<forall>l' \<in> set after. \<forall>v'. key_value l' \<noteq> Some (''level'', v')) \<and>
    parse_index_md content = Inr (Some m) \<longrightarrow> level m = Some 0)"
proof (intro conjI impI)
  show "\<exists>r. parse_index_md content = Inr r"
  proof (cases "frontmatter content")
    case None
    then show ?thesis by (simp add: parse_index_md_no_frontmatter)
  next
    case (Some fm')
    obtain md where "parse_lines empty_dict (split fm' newline) = Inr md"
      using parse_lines_Inr by blast
    with Some show ?thesis by (simp add: parse_index_md_parsed)
  qed
next
  assume a: "frontmatter content = Some fm \<and> split fm newline = before @ [l] @ after \<and>
    key_value l = Some (''level'', v) \<and> py_int v = Inl ValueError \<and>
    (\<forall>l' \<in> set after. \<forall>v'. key_value l' \<noteq> Some (''level'', v')) \<and>
    parse_index_md content = Inr (Some m)"
  then have fm: "frontmatter content = Some fm"
    and ls: "split fm newline = before @ [l] @ after"
    and kv: "key_value l = Some (''level'', v)"
    and bad: "py_int v = Inl ValueError"
    and rest: "\<forall>l' \<in> set after. \<forall>v'. key_value l' \<noteq> Some (''level'', v')"
    and res: "parse_index_md content = Inr (Some m)"
    by simp_all
  obtain md where md: "parse_lines empty_dict (split fm newline) = Inr md"
    using parse_lines_Inr by blast
  from parse_index_md_parsed [OF fm md] res
  have "(case strs md ''title'' of None \<Rightarrow> None | Some t \<Rightarrow> if t \<noteq> [] then Some md else None) = Some m"
    by simp
  then have "md = m" by (simp split: option.splits if_splits)
  with md ls have m: "parse_lines empty_dict (before @ [l] @ after) = Inr m" by simp
  obtain md1 where b: "parse_lines empty_dict before = Inr md1" using parse_lines_Inr by blast
  have l: "parse_line md1 l = Inr (md1\<lparr>level := Some 0\<rparr>)"
    using kv bad by (rule parse_line_bad_level)
  from m b l have "parse_lines (md1\<lparr>level := Some 0\<rparr>) after = Inr m"
    by (simp add: parse_lines_append)
  with rest have "level m = level (md1\<lparr>level := Some 0\<rparr>)"
    by (rule parse_lines_level_keep)
  then show "level m = Some 0" by simp
qed

theorem parse_index_md_bad_level_witness:
  "py_int ''high'' = Inl ValueError \<and>
   parse_index_md (''---'' @ [newline] @ ''title: X'' @ [newline] @ ''level: high'' @ [newline] @ ''---'') =
     Inr (Some \<lparr>strs = [''title'' \<mapsto> ''X''], tags = None, level = Some 0\<rparr>) \<and>
   level \<lparr>strs = [''title'' \<mapsto> ''X''], tags = None, level = Some 0\<rparr> = Some 0"
proof -
  let ?doc = "''---'' @ [newline] @ ''title: X'' @ [newline] @ ''level: high'' @ [newline] @ ''---''"
  let ?m = "\<lparr>strs = [''title'' \<mapsto> ''X''], tags = None, level = Some (0::int)\<rparr>"
  have bad: "py_int ''high'' = Inl ValueError"
    by (simp add: py_int_def MAX_STR_DIGITS_def strip_def isspace_def is_decimal_def)
  have fm: "frontmatter ?doc = Some (''title: X'' @ [newline] @ ''level: high'')"
    by (simp add: frontmatter_def find_from_def startswith_def newline_def slice_def strip_def
        isspace_def)
  have ls: "split (''title: X'' @ [newline] @ ''level: high'') newline = [''title: X''] @ [''level: high''] @ []"
    by (simp add: newline_def)
  have kv: "key_value ''level: high'' = Some (''level'', ''high'')"
    by (simp add: key_value_def strip_def isspace_def split1_def)
  have res: "parse_index_md ?doc = Inr (Some ?m)"
    by (simp add: parse_index_md_def frontmatter_def find_from_def startswith_def newline_def
        slice_def parse_line_def key_value_def strip_def isspace_def split1_def empty_dict_def
        is_ValueError_def py_int_def MAX_STR_DIGITS_def is_decimal_def)
  from parse_index_md_bad_level [of ?doc "''title: X'' @ [newline] @ ''level: high''"
      "[''title: X'']" "''level: high''" "[]" "''high''" ?m] fm ls kv bad res
  have "level ?m = Some 0" by simp
  with bad res show ?thesis by simp
qed


section \<open>Properties of the flowchart\<close>

lemma flowchart_keys:
  "map fst FLOWCHART_QUESTIONS =
     [''start'', ''tool_type'', ''doc_type'', ''training_type'', ''vuln_app_type'']"
  by (simp add: FLOWCHART_QUESTIONS_def)

lemma next_is_node_or_end:
  "(key, qd) \<in> set FLOWCHART_QUESTIONS \<Longrightarrow> option \<in> set (options qd) \<Longrightarrow>
     opt_next option = ''end'' \<or> opt_next option \<in> set (map fst FLOWCHART_QUESTIONS)"
  unfolding flowchart_keys by (auto simp add: FLOWCHART_QUESTIONS_def opt_def)

lemma reachable_is_node: "reachable key \<Longrightarrow> key \<in> set (map fst FLOWCHART_QUESTIONS)"
proof (induction rule: reachable.induct)
  case start
  show ?case by (simp add: flowchart_keys)
next
  case (step key qd option)
  from step.hyps(2) have "(key, qd) \<in> set FLOWCHART_QUESTIONS" by (rule map_of_SomeD)
  from next_is_node_or_end [OF this step.hyps(3)] step.hyps(4) show ?case by simp
qed

text \<open>
  Claim C8. For every question of \<open>FLOWCHART_QUESTIONS\<close> and every option of it, the
  \<open>next\<close> of the option is the key of a question or \<open>end\<close>. Hence every key reached
  from \<open>start\<close> is the key of a question, and taking an option of a question reached
  from \<open>start\<close> leads to \<open>end\<close> or to a key under which a question is defined.
\<close>

theorem flowchart_closed:
  "((key, qd) \<in> set FLOWCHART_QUESTIONS \<and> option \<in> set (options qd) \<longrightarrow>
      opt_next option = ''end'' \<or> opt_next option \<in> set (map fst FLOWCHART_QUESTIONS)) \<and>
   (reachable key \<longrightarrow> key \<in> set (map fst FLOWCHART_QUESTIONS)) \<and>
   (reachable key \<and> map_of FLOWCHART_QUESTIONS key = Some qd \<and> option \<in> set (options qd) \<longrightarrow>
      opt_next option = ''end'' \<or> map_of FLOWCHART_QUESTIONS (opt_next option) \<noteq> None)"
proof (intro conjI impI)
  assume "(key, qd) \<in> set FLOWCHART_QUESTIONS \<and> option \<in> set (options qd)"
  then show "opt_next option = ''end'' \<or> opt_next option \<in> set (map fst FLOWCHART_QUESTIONS)"
    using next_is_node_or_end by blast
next
  assume "reachable key"
  then show "key \<in> set (map fst FLOWCHART_QUESTIONS)" by (rule reachable_is_node)
next
  assume a: "reachable key \<and> map_of FLOWCHART_QUESTIONS key = Some qd \<and> option \<in> set (options qd)"
  then have "(key, qd) \<in> set FLOWCHART_QUESTIONS" by (simp add: map_of_SomeD)
  with a have "opt_next option = ''end'' \<or> opt_next option \<in> set (map fst FLOWCHART_QUESTIONS)"
    using next_is_node_or_end by blast
  then show "opt_next option = ''end'' \<or> map_of FLOWCHART_QUESTIONS (opt_next option) \<noteq> None"
    by (simp add: map_of_eq_None_iff)
qed

theorem flowchart_closed_witness:
  "reachable ''tool_type'' \<and>
   map_of FLOWCHART_QUESTIONS ''tool_type'' = Some (snd (FLOWCHART_QUESTIONS ! 1)) \<and>
   opt ''Go Back'' ''back'' ''start'' \<in> set (options (snd (FLOWCHART_QUESTIONS ! 1))) \<and>
   opt_next (opt ''Go Back'' ''back'' ''start'') = ''start'' \<and>
   ''start'' \<in> set (map fst FLOWCHART_QUESTIONS) \<and>
   ''tool_type'' \<in> set (map fst FLOWCHART_QUESTIONS) \<and>
   map_of FLOWCHART_QUESTIONS ''start'' \<noteq> None"
proof -
  let ?qd = "snd (FLOWCHART_QUESTIONS ! 1)"
  let ?go_back = "opt ''Go Back'' ''back'' ''start''"
  have s: "map_of FLOWCHART_QUESTIONS ''start'' = Some (snd (FLOWCHART_QUESTIONS ! 0))"
    by (simp add: FLOWCHART_QUESTIONS_def)
  have t: "opt ''Security Tool'' ''tool'' ''tool_type'' \<in> set (options (snd (FLOWCHART_QUESTIONS ! 0)))"
    by (simp add: FLOWCHART_QUESTIONS_def)
  have r: "reachable ''tool_type''"
    using reachable.step [OF reachable.start s t] by (simp add: opt_def)
  have q: "map_of FLOWCHART_QUESTIONS ''tool_type'' = Some ?qd"
    by (simp add: FLOWCHART_QUESTIONS_def)
  have m: "(''tool_type'', ?qd) \<in> set FLOWCHART_QUESTIONS"
    by (simp add: FLOWCHART_QUESTIONS_def)
  have b: "?go_back \<in> set (options ?qd)"
    by (simp add: FLOWCHART_QUESTIONS_def)
  have n: "opt_next ?go_back = ''start''" by (simp add: opt_def)
  from flowchart_closed [of "''tool_type''" ?qd ?go_back] r q m b n
  have "''start'' \<in> set (map fst FLOWCHART_QUESTIONS) \<and>
        ''tool_type'' \<in> set (map fst FLOWCHART_QUESTIONS) \<and>
        map_of FLOWCHART_QUESTIONS ''start'' \<noteq> None"
    by simp
  with r q b n show ?thesis by simp
qed

section \<open>Properties of the conversation handlers\<close>

lemma send_unknown:
  "map_of FLOWCHART_QUESTIONS key = None \<Longrightarrow> send_flowchart_question w user_id key = Inr w"
  by (simp add: send_flowchart_question_def)

lemma send_known:
  "map_of FLOWCHART_QUESTIONS key = Some qd \<Longrightarrow>
   send_flowchart_question w user_id key =
     Inr (w\<lparr>trace := trace w @
       [SendDm user_id (Question (question qd) (question_buttons key qd)) (question qd)]\<rparr>)"
  by (simp add: send_flowchart_question_def send_dm_def log_event_def)

lemma flowchart_action_id:
  "startswith act ''flowchart_'' \<Longrightarrow>
     act \<noteq> ''start_flowchart'' \<and> act \<noteq> ''learn_more'' \<and> act \<noteq> ''start_over''"
  by (auto simp add: startswith_def)

lemma handle_payload:
  assumes "startswith act ''flowchart_''"
  shows "handle_flowchart_action w user_id act (Payload c s n) =
     (if n = ''end'' then Inr (show_matching_projects (store_user_selection w user_id c s) user_id s)
      else send_flowchart_question (store_user_selection w user_id c s) user_id n)"
  using assms flowchart_action_id [OF assms]
  by (simp add: handle_flowchart_action_def json_loads_def)

lemma trace_store:
  "trace (store_user_selection w user_id c s) =
     trace w @ [KvPut (''conversation:'' @ user_id) (Some 3600)]"
  by (simp add: store_user_selection_def time_time_def log_event_def)

lemma selections_store:
  "map_option selections (conversations (store_user_selection w user_id c s) user_id) =
     Some ((case conversations w user_id of None \<Rightarrow> Map.empty | Some st \<Rightarrow> selections st)(c \<mapsto> s))"
  by (simp add: store_user_selection_def time_time_def log_event_def)

lemma start_question:
  "map_of FLOWCHART_QUESTIONS ''start'' = Some (snd (hd FLOWCHART_QUESTIONS))"
  by (simp add: FLOWCHART_QUESTIONS_def)

lemma back_next:
  "map_of FLOWCHART_QUESTIONS node = Some qd \<Longrightarrow> option \<in> set (options qd) \<Longrightarrow>
   opt_value option = ''back'' \<Longrightarrow> opt_next option = ''start'' \<and> node \<noteq> ''start''"
  by (auto simp add: FLOWCHART_QUESTIONS_def opt_def split: if_splits)

text \<open>
  Claim C6, as the code has it. For a key under which \<open>FLOWCHART_QUESTIONS\<close> has no
  question, \<open>send_flowchart_question\<close> raises nothing: it returns with the world as it
  was, no message sent. \<open>handle_flowchart_action\<close>, given a flowchart button whose
  \<open>next\<close> is such a key other than \<open>end\<close>, records the selection and returns; the only
  effect is the write of the conversation state, and the start question is not sent.
\<close>

theorem unknown_node_ignored:
  assumes "map_of FLOWCHART_QUESTIONS key = None"
  shows "send_flowchart_question w user_id key = Inr w \<and>
     (startswith act ''flowchart_'' \<and> key \<noteq> ''end'' \<longrightarrow>
        handle_flowchart_action w user_id act (Payload c s key) =
          Inr (store_user_selection w user_id c s) \<and>
        trace (store_user_selection w user_id c s) =
          trace w @ [KvPut (''conversation:'' @ user_id) (Some 3600)])"
  using assms by (simp add: send_unknown handle_payload trace_store)

theorem unknown_node_ignored_witness:
  "map_of FLOWCHART_QUESTIONS ''retired_question'' = None \<and>
   startswith ''flowchart_doc_type_standards'' ''flowchart_'' \<and>
   send_flowchart_question world0 ''U2'' ''retired_question'' = Inr world0 \<and>
   handle_flowchart_action world0 ''U2'' ''flowchart_doc_type_standards''
       (Payload ''doc_type'' ''standards'' ''retired_question'') =
     Inr (store_user_selection world0 ''U2'' ''doc_type'' ''standards'') \<and>
   trace (store_user_selection world0 ''U2'' ''doc_type'' ''standards'') =
     trace world0 @ [KvPut ''conversation:U2'' (Some 3600)]"
proof -
  have k: "map_of FLOWCHART_QUESTIONS ''retired_question'' = None"
    by (simp add: FLOWCHART_QUESTIONS_def)
  have a: "startswith ''flowchart_doc_type_standards'' ''flowchart_''"
    by (simp add: startswith_def)
  from unknown_node_ignored [OF k, of world0 "''U2''" "''flowchart_doc_type_standards''"
      "''doc_type''" "''standards''"] k a
  show ?thesis by simp
qed

text \<open>
  The claim as the specification words it fails: for the key \<open>nowhere\<close>, which is not in
  the graph, \<open>send_flowchart_question\<close> returns normally and leaves the world alone, and
  \<open>handle_flowchart_action\<close> returns normally after one write to the store, with no
  message sent, so the user is not taken back to the start question.
\<close>

theorem unknown_node_counterexample:
  "map_of FLOWCHART_QUESTIONS ''nowhere'' = None \<and>
   send_flowchart_question world0 ''U1'' ''nowhere'' = Inr world0 \<and>
   handle_flowchart_action world0 ''U1'' ''flowchart_tool_type_code_analysis''
       (Payload ''tool_type'' ''code_analysis'' ''nowhere'')
     = Inr (store_user_selection world0 ''U1'' ''tool_type'' ''code_analysis'') \<and>
   trace (store_user_selection world0 ''U1'' ''tool_type'' ''code_analysis'') =
     [KvPut ''conversation:U1'' (Some 3600)]"
  by (simp add: FLOWCHART_QUESTIONS_def send_flowchart_question_def handle_flowchart_action_def
      startswith_def json_loads_def store_user_selection_def time_time_def log_event_def
      world0_def)

text \<open>
  Claim C7. Recording the same answer to the same question twice leaves the user's
  selections map as recording it once does.
\<close>

theorem store_user_selection_idempotent:
  "map_option selections
     (conversations
        (store_user_selection (store_user_selection w user_id question_key answer)
           user_id question_key answer) user_id) =
   map_option selections
     (conversations (store_user_selection w user_id question_key answer) user_id)"
  by (simp add: store_user_selection_def time_time_def log_event_def)

theorem store_user_selection_idempotent_witness:
  "map_option selections
     (conversations
        (store_user_selection (store_user_selection world0 ''U1'' ''start'' ''tool'')
           ''U1'' ''start'' ''tool'') ''U1'') =
   Some [''start'' \<mapsto> ''tool'']"
  using store_user_selection_idempotent [of world0 "''U1''" "''start''" "''tool''"]
  by (simp add: store_user_selection_def time_time_def log_event_def world0_def)

text \<open>
  Claim C10. For a question that has a \<open>Go Back\<close> option (none of them is the start
  question), \<open>handle_flowchart_action\<close> on the button of that option first writes the
  user's conversation state, with \<open>back\<close> stored under the key of that question and
  every other selection kept, and then sends the start question: the state is not put
  back to what it was before the question was answered.
\<close>

theorem go_back_is_recorded:
  assumes "map_of FLOWCHART_QUESTIONS node = Some qd"
    and "option \<in> set (options qd)"
    and "opt_value option = ''back''"
  shows "\<exists>w' sq.
     handle_flowchart_action w user_id (''flowchart_'' @ node @ ''_'' @ opt_value option)
        (Payload node (opt_value option) (opt_next option)) = Inr w' \<and>
     node \<noteq> ''start'' \<and>
     map_of FLOWCHART_QUESTIONS ''start'' = Some sq \<and>
     map_option selections (conversations w' user_id) =
       Some ((case conversations w user_id of None \<Rightarrow> Map.empty | Some st \<Rightarrow> selections st)
               (node \<mapsto> ''back'')) \<and>
     trace w' = trace w @
       [KvPut (''conversation:'' @ user_id) (Some 3600),
        SendDm user_id (Question (question sq) (question_buttons ''start'' sq)) (question sq)]"
proof -
  let ?sq = "snd (hd FLOWCHART_QUESTIONS)"
  let ?w1 = "store_user_selection w user_id node ''back''"
  let ?w' = "?w1\<lparr>trace := trace ?w1 @
      [SendDm user_id (Question (question ?sq) (question_buttons ''start'' ?sq)) (question ?sq)]\<rparr>"
  from back_next [OF assms] have nx: "opt_next option = ''start''" and ns: "node \<noteq> ''start''"
    by simp_all
  have act: "startswith (''flowchart_'' @ node @ ''_'' @ opt_value option) ''flowchart_''"
    by (simp add: startswith_def)
  have "handle_flowchart_action w user_id (''flowchart_'' @ node @ ''_'' @ opt_value option)
        (Payload node (opt_value option) (opt_next option)) =
        send_flowchart_question ?w1 user_id ''start''"
    using handle_payload [OF act, of w user_id node "opt_value option" "opt_next option"] nx assms(3)
    by simp
  also have "\<dots> = Inr ?w'" by (rule send_known [OF start_question])
  finally have h: "handle_flowchart_action w user_id (''flowchart_'' @ node @ ''_'' @ opt_value option)
        (Payload node (opt_value option) (opt_next option)) = Inr ?w'" .
  have sel: "map_option selections (conversations ?w' user_id) =
       Some ((case conversations w user_id of None \<Rightarrow> Map.empty | Some st \<Rightarrow> selections st)
               (node \<mapsto> ''back''))"
    using selections_store [of w user_id node "''back''"] by simp
  have tr: "trace ?w' = trace w @
       [KvPut (''conversation:'' @ user_id) (Some 3600),
        SendDm user_id (Question (question ?sq) (question_buttons ''start'' ?sq)) (question ?sq)]"
    by (simp add: trace_store)
  from h ns start_question sel tr show ?thesis by blast
qed

theorem go_back_is_recorded_witness:
  "map_of FLOWCHART_QUESTIONS ''tool_type'' = Some (snd (FLOWCHART_QUESTIONS ! 1)) \<and>
   opt ''Go Back'' ''back'' ''start'' \<in> set (options (snd (FLOWCHART_QUESTIONS ! 1))) \<and>
   (\<exists>w'. handle_flowchart_action (store_user_selection world0 ''U1'' ''start'' ''tool'') ''U1''
            ''flowchart_tool_type_back'' (Payload ''tool_type'' ''back'' ''start'') = Inr w' \<and>
          map_option selections (conversations w' ''U1'') =
            Some [''start'' \<mapsto> ''tool'', ''tool_type'' \<mapsto> ''back''] \<and>
          trace w' =
            [KvPut ''conversation:U1'' (Some 3600), KvPut ''conversation:U1'' (Some 3600),
             SendDm ''U1''
               (Question (question (snd (hd FLOWCHART_QUESTIONS)))
                  (question_buttons ''start'' (snd (hd FLOWCHART_QUESTIONS))))
               (question (snd (hd FLOWCHART_QUESTIONS)))])"
proof -
  let ?qd = "snd (FLOWCHART_QUESTIONS ! 1)"
  let ?go_back = "opt ''Go Back'' ''back'' ''start''"
  let ?w = "store_user_selection world0 ''U1'' ''start'' ''tool''"
  have q: "map_of FLOWCHART_QUESTIONS ''tool_type'' = Some ?qd"
    by (simp add: FLOWCHART_QUESTIONS_def)
  have b: "?go_back \<in> set (options ?qd)"
    by (simp add: FLOWCHART_QUESTIONS_def)
  have v: "opt_value ?go_back = ''back''" by (simp add: opt_def)
  have n: "opt_next ?go_back = ''start''" by (simp add: opt_def)
  have c: "conversations ?w ''U1'' = Some \<lparr>selections = [''start'' \<mapsto> ''tool''], last_updated = 100000\<rparr>"
    by (simp add: store_user_selection_def time_time_def log_event_def world0_def)
  have t: "trace ?w = [KvPut ''conversation:U1'' (Some 3600)]"
    by (simp add: trace_store world0_def)
  from go_back_is_recorded [OF q b v, of ?w "''U1''"] obtain w' sq where
    h: "handle_flowchart_action ?w ''U1'' (''flowchart_'' @ ''tool_type'' @ ''_'' @ opt_value ?go_back)
          (Payload ''tool_type'' (opt_value ?go_back) (opt_next ?go_back)) = Inr w'"
    and sq: "map_of FLOWCHART_QUESTIONS ''start'' = Some sq"
    and sel: "map_option selections (conversations w' ''U1'') =
       Some ((case conversations ?w ''U1'' of None \<Rightarrow> Map.empty | Some st \<Rightarrow> selections st)
               (''tool_type'' \<mapsto> ''back''))"
    and tr: "trace w' = trace ?w @
       [KvPut (''conversation:'' @ ''U1'') (Some 3600),
        SendDm ''U1'' (Question (question sq) (question_buttons ''start'' sq)) (question sq)]"
    by blast
  from sq have sq': "sq = snd (hd FLOWCHART_QUESTIONS)" by (simp add: start_question)
  have "handle_flowchart_action ?w ''U1'' ''flowchart_tool_type_back''
          (Payload ''tool_type'' ''back'' ''start'') = Inr w'"
    using h v n by simp
  moreover have "map_option selections (conversations w' ''U1'') =
      Some [''start'' \<mapsto> ''tool'', ''tool_type'' \<mapsto> ''back'']"
    using sel c by simp
  moreover have "trace w' =
      [KvPut ''conversation:U1'' (Some 3600), KvPut ''conversation:U1'' (Some 3600),
       SendDm ''U1''
         (Question (question (snd (hd FLOWCHART_QUESTIONS)))
            (question_buttons ''start'' (snd (hd FLOWCHART_QUESTIONS))))
         (question (snd (hd FLOWCHART_QUESTIONS)))]"
    using tr t sq' by simp
  ultimately show ?thesis using q b by blast
qed


section \<open>Properties of the catalog cache\<close>

lemma get_cached_fresh:
  assumes "projects_cache w = Some data"
    and "clock w (clock_reads w) - timestamp data < real CACHE_TTL_SECONDS"
  shows "get_cached_projects w = (projects data, w\<lparr>clock_reads := clock_reads w + 1\<rparr>)"
  using assms by (simp add: get_cached_projects_def time_time_def)

lemma get_cached_none:
  assumes "projects_cache w = None"
  shows "get_cached_projects w =
     (remote_catalog w,
      w\<lparr>projects_cache :=
          Some \<lparr>timestamp = clock w (clock_reads w), projects = remote_catalog w\<rparr>,
        clock_reads := clock_reads w + 1,
        trace := trace w @ [FetchProjects, KvPut ''projects:cache'' (Some CACHE_TTL_SECONDS)]\<rparr>)"
  using assms
  by (simp add: get_cached_projects_def time_time_def fetch_owasp_projects_def log_event_def)

lemma get_cached_stale:
  assumes "projects_cache w = Some data"
    and "real CACHE_TTL_SECONDS \<le> clock w (clock_reads w) - timestamp data"
  shows "get_cached_projects w =
     (remote_catalog w,
      w\<lparr>projects_cache :=
          Some \<lparr>timestamp = clock w (clock_reads w + 1), projects = remote_catalog w\<rparr>,
        clock_reads := clock_reads w + 2,
        trace := trace w @ [FetchProjects, KvPut ''projects:cache'' (Some CACHE_TTL_SECONDS)]\<rparr>)"
  using assms
  by (simp add: get_cached_projects_def time_time_def fetch_owasp_projects_def log_event_def)

text \<open>
  Claim C3. When a catalog is cached and the clock, read at the call, is less than
  \<open>CACHE_TTL_SECONDS\<close> (24 hours) past its timestamp, \<open>get_cached_projects\<close> returns
  the cached projects; the fetcher is not run and the cache stays as it is. When nothing
  is cached, or the cached catalog is at least that old, the fetcher is run exactly
  once, what it found is stored under \<open>projects:cache\<close> with the latest reading of the
  clock as its timestamp, and is returned.
\<close>

theorem get_cached_projects_ttl:
  "(projects_cache w = Some data \<and>
    clock w (clock_reads w) - timestamp data < real CACHE_TTL_SECONDS \<longrightarrow>
      fst (get_cached_projects w) = projects data \<and>
      trace (snd (get_cached_projects w)) = trace w \<and>
      projects_cache (snd (get_cached_projects w)) = Some data) \<and>
   (projects_cache w = None \<or>
    (projects_cache w = Some data \<and>
     real CACHE_TTL_SECONDS \<le> clock w (clock_reads w) - timestamp data) \<longrightarrow>
      fst (get_cached_projects w) = remote_catalog w \<and>
      trace (snd (get_cached_projects w)) =
        trace w @ [FetchProjects, KvPut ''projects:cache'' (Some CACHE_TTL_SECONDS)] \<and>
      projects_cache (snd (get_cached_projects w)) =
        Some \<lparr>timestamp = clock w (clock_reads (snd (get_cached_projects w)) - 1),
              projects = remote_catalog w\<rparr>)"
proof (intro conjI impI)
  assume a: "projects_cache w = Some data \<and>
    clock w (clock_reads w) - timestamp data < real CACHE_TTL_SECONDS"
  then have e: "get_cached_projects w = (projects data, w\<lparr>clock_reads := clock_reads w + 1\<rparr>)"
    by (simp add: get_cached_fresh)
  show "fst (get_cached_projects w) = projects data" by (simp add: e)
  show "trace (snd (get_cached_projects w)) = trace w" by (simp add: e)
  show "projects_cache (snd (get_cached_projects w)) = Some data" using a by (simp add: e)
next
  assume a: "projects_cache w = None \<or>
    (projects_cache w = Some data \<and>
     real CACHE_TTL_SECONDS \<le> clock w (clock_reads w) - timestamp data)"
  then consider (none) "projects_cache w = None"
    | (stale) "projects_cache w = Some data"
        "real CACHE_TTL_SECONDS \<le> clock w (clock_reads w) - timestamp data"
    by fastforce
  then have "fst (get_cached_projects w) = remote_catalog w \<and>
      trace (snd (get_cached_projects w)) =
        trace w @ [FetchProjects, KvPut ''projects:cache'' (Some CACHE_TTL_SECONDS)] \<and>
      projects_cache (snd (get_cached_projects w)) =
        Some \<lparr>timestamp = clock w (clock_reads (snd (get_cached_projects w)) - 1),
              projects = remote_catalog w\<rparr>"
  proof cases
    case none
    show ?thesis by (simp add: get_cached_none [OF none])
  next
    case stale
    show ?thesis by (simp add: get_cached_stale [OF stale])
  qed
  then show "fst (get_cached_projects w) = remote_catalog w"
    and "trace (snd (get_cached_projects w)) =
        trace w @ [FetchProjects, KvPut ''projects:cache'' (Some CACHE_TTL_SECONDS)]"
    and "projects_cache (snd (get_cached_projects w)) =
        Some \<lparr>timestamp = clock w (clock_reads (snd (get_cached_projects w)) - 1),
              projects = remote_catalog w\<rparr>"
    by simp_all
qed

theorem get_cached_projects_ttl_witness:
  "projects_cache fresh_world = Some fresh_catalog \<and>
   clock fresh_world (clock_reads fresh_world) - timestamp fresh_catalog < real CACHE_TTL_SECONDS \<and>
   fst (get_cached_projects fresh_world) = [tool_project] \<and>
   trace (snd (get_cached_projects fresh_world)) = [] \<and>
   projects_cache stale_world = Some stale_catalog \<and>
   real CACHE_TTL_SECONDS \<le> clock stale_world (clock_reads stale_world) - timestamp stale_catalog \<and>
   fst (get_cached_projects stale_world) = [doc_project] \<and>
   trace (snd (get_cached_projects stale_world)) =
     [FetchProjects, KvPut ''projects:cache'' (Some CACHE_TTL_SECONDS)] \<and>
   projects_cache (snd (get_cached_projects stale_world)) =
     Some \<lparr>timestamp = 100001, projects = [doc_project]\<rparr> \<and>
   projects_cache world0 = None \<and>
   fst (get_cached_projects world0) = [doc_project] \<and>
   trace (snd (get_cached_projects world0)) =
     [FetchProjects, KvPut ''projects:cache'' (Some CACHE_TTL_SECONDS)] \<and>
   projects_cache (snd (get_cached_projects world0)) =
     Some \<lparr>timestamp = 100000, projects = [doc_project]\<rparr>"
proof -
  have f1: "projects_cache fresh_world = Some fresh_catalog"
    by (simp add: fresh_world_def)
  have f2: "clock fresh_world (clock_reads fresh_world) - timestamp fresh_catalog
      < real CACHE_TTL_SECONDS"
    by (simp add: fresh_world_def world0_def fresh_catalog_def CACHE_TTL_SECONDS_def)
  have s1: "projects_cache stale_world = Some stale_catalog"
    by (simp add: stale_world_def)
  have s2: "real CACHE_TTL_SECONDS
      \<le> clock stale_world (clock_reads stale_world) - timestamp stale_catalog"
    by (simp add: stale_world_def world0_def stale_catalog_def CACHE_TTL_SECONDS_def)
  have n1: "projects_cache world0 = None" by (simp add: world0_def)
  have rs: "clock_reads (snd (get_cached_projects stale_world)) = 2"
    by (simp only: get_cached_stale [OF s1 s2]) (simp add: stale_world_def world0_def)
  have rn: "clock_reads (snd (get_cached_projects world0)) = 1"
    by (simp only: get_cached_none [OF n1]) (simp add: world0_def)
  have wf: "trace fresh_world = []" "projects fresh_catalog = [tool_project]"
    by (simp_all add: fresh_world_def world0_def fresh_catalog_def)
  have ws: "trace stale_world = []" "remote_catalog stale_world = [doc_project]"
    "clock stale_world (Suc 0) = 100001"
    by (simp_all add: stale_world_def world0_def)
  have wn: "trace world0 = []" "remote_catalog world0 = [doc_project]"
    "clock world0 0 = 100000"
    by (simp_all add: world0_def)
  from get_cached_projects_ttl [of fresh_world fresh_catalog] f1 f2 wf
  have a: "fst (get_cached_projects fresh_world) = [tool_project] \<and>
      trace (snd (get_cached_projects fresh_world)) = []"
    by simp
  from get_cached_projects_ttl [of stale_world stale_catalog] s1 s2 rs ws
  have b: "fst (get_cached_projects stale_world) = [doc_project] \<and>
      trace (snd (get_cached_projects stale_world)) =
        [FetchProjects, KvPut ''projects:cache'' (Some CACHE_TTL_SECONDS)] \<and>
      projects_cache (snd (get_cached_projects stale_world)) =
        Some \<lparr>timestamp = 100001, projects = [doc_project]\<rparr>"
    by simp
  from get_cached_projects_ttl [of world0 fresh_catalog] n1 rn wn
  have c: "fst (get_cached_projects world0) = [doc_project] \<and>
      trace (snd (get_cached_projects world0)) =
        [FetchProjects, KvPut ''projects:cache'' (Some CACHE_TTL_SECONDS)] \<and>
      projects_cache (snd (get_cached_projects world0)) =
        Some \<lparr>timestamp = 100000, projects = [doc_project]\<rparr>"
    by simp
  from f1 f2 s1 s2 n1 a b c show ?thesis by simp
qed


end
